theory Spec2Isabelle
  imports Complex_Main "HOL-Library.Multiset" "HOL-Library.Sublist" "HOL-Library.Log_Nat"
begin

section \<open>PyVE Manager: the connection, poll and dispatch cycle of \<open>PyVE.py\<close>\<close>

text \<open>
  The program is a single Python module: a function that opens the session to the
  Proxmox host with a bounded retry, and a \<open>MonitorApp\<close> widget whose timer callback
  \<open>update_stats\<close> paints the host gauges and the two guest lists, and whose button handlers
  send one lifecycle action for the selected guest.

  The embedding is state passing. One record holds the module globals and the widget
  fields that the methods read or write. What the program does to the outside world is
  recorded in the state: the calls it sends (\<open>calls\<close>), the log lines (\<open>logger\<close>), the
  message boxes (\<open>dialogs\<close>) and the single-shot timers (\<open>timers\<close>). What the outside world
  answers is an argument of each operation. An exception of the source is a value of
  type \<open>exn\<close>, and every \<open>try\<close>/\<open>except\<close> of the source is a case distinction.

  Python's \<open>int\<close> is \<open>int\<close>. A Python \<open>float\<close> is the rational value of an IEEE 754
  double, and every floating point operation of the source rounds its exact result to the
  nearest double, ties to even (\<open>round_double\<close>). Infinities and NaN are not
  represented: a result of magnitude \<open>2 ^ 1024\<close> or more is outside the model. A Python
  string is a \<open>string\<close>, each \<open>char\<close> standing for one code point below 256.
\<close>

subsection \<open>Data\<close>

datatype exn = ResourceException string | OtherException string

fun exn_str :: "exn \<Rightarrow> string" where
  "exn_str (ResourceException m) = m"
| "exn_str (OtherException m) = m"

datatype proxmox_api = ProxmoxAPI nat

datatype action = Start | Stop | Reboot | Shutdown

datatype resource_type = VM | Container

datatype event =
    Connect
  | VersionGet
  | Sleep nat
  | NodeStatusGet
  | QemuGet
  | LxcGet
  | StatusPost resource_type int action

datatype log_entry = LogInfo string | LogError string

datatype dialog = Warning string string | Critical string string

datatype callback = UpdateStats

text \<open>
  The answer of \<open>node.status.get()\<close> is a dictionary read with \<open>.get(key, default)\<close>:
  each key is an optional field, \<open>None\<close> standing for an absent key. The fields \<open>cpu\<close>
  and \<open>wait\<close> are floats, the byte counts are integers.
\<close>

record cpuinfo =
  cores :: "int option"
  cpus :: "int option"

record usage =
  used :: "int option"
  total :: "int option"

record node_status =
  cpu :: "rat option"
  cpuinfo :: "cpuinfo option"
  memory :: "usage option"
  rootfs :: "usage option"
  wait :: "rat option"

text \<open>An entry of \<open>node.qemu.get()\<close> or \<open>node.lxc.get()\<close>, read with \<open>.get(key)\<close>.\<close>

record guest =
  vmid :: "int option"
  name :: "string option"
  status :: "string option"

text \<open>
  A label text. The two labels written with the format \<open>:.1f\<close> are kept as the format's
  arguments: \<open>GiB ''RAM'' u t\<close> is the text \<open>f'RAM ({u:.1f}/{t:.1f} GiB)'\<close>.
\<close>

datatype label = Text string | GiB string rat rat

text \<open>
  The format of a progress bar: \<open>PercentP\<close> is \<open>"%p%"\<close>, and \<open>OneDecimal x\<close> is the text
  \<open>f"{x:.1f}%"\<close>.
\<close>

datatype bar_format = PercentP | OneDecimal rat

record list_item =
  item_text :: string
  background :: "string option"
  foreground :: "string option"

text \<open>A \<open>QListWidget\<close> with single selection: its rows and the index of the selected row.\<close>

record list_widget =
  items :: "list_item list"
  selected :: "nat option"

record state =
  proxmox :: "proxmox_api option"
  connection_error_details :: "string option"
  pyve_cpu_label :: label
  pyve_cpu_bar :: int
  pyve_ram_label :: label
  pyve_ram_bar :: int
  pyve_disk_label :: label
  pyve_disk_bar :: int
  pyve_iodelay_label :: label
  pyve_iodelay_bar :: int
  pyve_iodelay_format :: bar_format
  vm_list :: list_widget
  container_list :: list_widget
  calls :: "event list"
  logger :: "log_entry list"
  dialogs :: "dialog list"
  timers :: "(nat \<times> callback) list"

text \<open>What the host answers during one poll tick or one action.\<close>

record backend =
  status_get :: "exn + node_status"
  qemu_get :: "exn + guest list"
  lxc_get :: "exn + guest list"
  status_post :: "resource_type \<Rightarrow> int \<Rightarrow> action \<Rightarrow> exn option"

text \<open>
  What the host answers at startup, by attempt number: the constructor \<open>ProxmoxAPI(...)\<close>
  returns a session or raises, and \<open>proxmox.version.get()\<close> returns or raises.
\<close>

record startup_backend =
  api_connect :: "nat \<Rightarrow> exn + proxmox_api"
  version_get :: "nat \<Rightarrow> exn option"

record config =
  PROXMOX_HOST :: string
  PROXMOX_NODE :: string

subsection \<open>Python's \<open>str\<close> and \<open>int\<close> on integers and decimal strings\<close>

definition digit_char :: "nat \<Rightarrow> char" where
  "digit_char d = char_of (48 + d)"

fun digits :: "nat \<Rightarrow> string" where
  "digits n = (if n < 10 then [digit_char n] else digits (n div 10) @ [digit_char (n mod 10)])"

declare digits.simps [simp del]

definition str_int :: "int \<Rightarrow> string" where
  "str_int i = (if i < 0 then CHR ''-'' # digits (nat (- i)) else digits (nat i))"

definition is_digit :: "char \<Rightarrow> bool" where
  "is_digit c = (48 \<le> (of_char c :: nat) \<and> (of_char c :: nat) \<le> 57)"

definition digit_val :: "char \<Rightarrow> nat" where
  "digit_val c = of_char c - 48"

definition int_of_digits :: "string \<Rightarrow> int" where
  "int_of_digits s = int (foldl (\<lambda>acc c. 10 * acc + digit_val c) 0 s)"

text \<open>
  The class \<open>\s\<close> of a \<open>str\<close> pattern, on code points below 256: tab to carriage return,
  the four separators 28 to 31, the space, and the code points 133 and 160.
\<close>

definition is_space :: "char \<Rightarrow> bool" where
  "is_space c = (let n = (of_char c :: nat) in
     (9 \<le> n \<and> n \<le> 13) \<or> (28 \<le> n \<and> n \<le> 32) \<or> n = 133 \<or> n = 160)"

text \<open>
  \<open>re.search(r'ID:\s*(\d+)', s)\<close>, returning group 1 of the leftmost match. A match at
  the head of \<open>s\<close> is \<open>ID:\<close>, then all the white space that follows (a white space
  character is not a digit, so no shorter run can lead to a match), then the longest
  non-empty run of digits.
\<close>

fun match_here :: "string \<Rightarrow> string option" where
  "match_here (a # b # c # rest) =
     (if a = CHR ''I'' \<and> b = CHR ''D'' \<and> c = CHR '':'' then
        (let ds = takeWhile is_digit (dropWhile is_space rest)
         in if ds = [] then None else Some ds)
      else None)"
| "match_here _ = None"

fun re_search :: "string \<Rightarrow> string option" where
  "re_search [] = None"
| "re_search (c # cs) =
     (case match_here (c # cs) of Some g \<Rightarrow> Some g | None \<Rightarrow> re_search cs)"

subsection \<open>Python's \<open>float\<close>: IEEE 754 doubles\<close>

text \<open>Rounding a rational to the nearest integer, a tie going to the even one.\<close>

definition round_half_even :: "rat \<Rightarrow> int" where
  "round_half_even x =
     (let f = \<lfloor>x\<rfloor>; r = x - of_int f
      in if r < 1 / 2 then f else if 1 / 2 < r then f + 1 else if even f then f else f + 1)"

text \<open>The binary exponent of a positive rational: \<open>2 ^ e \<le> x < 2 ^ (e + 1)\<close>.\<close>

definition ilog2 :: "rat \<Rightarrow> int" where
  "ilog2 x =
     (case quotient_of x of
        (n, d) \<Rightarrow> (let k = bitlen n - bitlen d in if 2 powi k \<le> x then k else k - 1))"

text \<open>
  The spacing of the doubles around \<open>x\<close>: 53 significant bits in the normal range, and
  the fixed spacing \<open>2 ^ -1074\<close> of the subnormal numbers below \<open>2 ^ -1022\<close>.
\<close>

definition quantum :: "rat \<Rightarrow> rat" where
  "quantum x = 2 powi (max (ilog2 \<bar>x\<bar>) (- 1022) - 52)"

definition round_double :: "rat \<Rightarrow> rat" where
  "round_double x =
     (if x = 0 then 0 else of_int (round_half_even (x / quantum x)) * quantum x)"

definition is_double :: "rat \<Rightarrow> bool" where
  "is_double x = (round_double x = x)"

text \<open>
  The operations of the source on floats: \<open>x * y\<close> and \<open>x / y\<close> on two floats (an
  \<open>int\<close> operand such as \<open>100\<close> is converted exactly), and \<open>a / b\<close> on two integers,
  which Python rounds once from the exact quotient.
\<close>

definition fmul :: "rat \<Rightarrow> rat \<Rightarrow> rat" where
  "fmul x y = round_double (x * y)"

definition fdiv :: "rat \<Rightarrow> rat \<Rightarrow> rat" where
  "fdiv x y = round_double (x / y)"

definition int_truediv :: "int \<Rightarrow> int \<Rightarrow> rat" where
  "int_truediv a b = round_double (of_int a / of_int b)"

subsection \<open>Startup: \<open>initialize_proxmox_connection\<close>\<close>

definition max_retries :: nat where
  "max_retries = 3"

text \<open>The \<open>except\<close> branch of one attempt.\<close>

definition attempt_failed :: "nat \<Rightarrow> exn \<Rightarrow> state \<Rightarrow> state" where
  "attempt_failed attempt e st =
     (let details = ''Proxmox connection error (attempt '' @ str_int (int attempt + 1) @ ''/''
                      @ str_int (int max_retries) @ ''): '' @ exn_str e
      in st\<lparr>connection_error_details := Some details,
             logger := logger st @ [LogError details],
             calls := calls st @ (if attempt < max_retries - 1 then [Sleep 2] else [])\<rparr>)"

text \<open>The \<open>for\<close> loop over the attempt numbers that are left.\<close>

fun attempts :: "config \<Rightarrow> startup_backend \<Rightarrow> nat list \<Rightarrow> state \<Rightarrow> bool \<times> state" where
  "attempts cfg sb [] st = (False, st)"
| "attempts cfg sb (attempt # rest) st =
     (case api_connect sb attempt of
        Inl e \<Rightarrow> attempts cfg sb rest (attempt_failed attempt e (st\<lparr>calls := calls st @ [Connect]\<rparr>))
      | Inr h \<Rightarrow>
          (let st1 = st\<lparr>proxmox := Some h, calls := calls st @ [Connect, VersionGet]\<rparr>
           in case version_get sb attempt of
                Some e \<Rightarrow> attempts cfg sb rest (attempt_failed attempt e st1)
              | None \<Rightarrow>
                  (True, st1\<lparr>logger := logger st1 @
                     [LogInfo (''Connected to Proxmox host '' @ PROXMOX_HOST cfg @ '' on node ''
                               @ PROXMOX_NODE cfg)]\<rparr>)))"

definition initialize_proxmox_connection ::
    "config \<Rightarrow> startup_backend \<Rightarrow> state \<Rightarrow> bool \<times> state" where
  "initialize_proxmox_connection cfg sb st = attempts cfg sb [0..<max_retries] st"

subsection \<open>The widget: \<open>MonitorApp\<close>\<close>

definition set_error_state :: "state \<Rightarrow> state" where
  "set_error_state st =
     st\<lparr>pyve_cpu_label := Text ''CPU (N/A)'',
        pyve_ram_label := Text ''RAM: Error'',
        pyve_disk_label := Text ''Disk: Error'',
        pyve_iodelay_label := Text ''I/O Delay: Error''\<rparr>"

text \<open>
  The globals when the module is loaded. The widget does not exist yet: its fields are
  given the values that \<open>init_ui\<close> writes for an absent connection.
\<close>

definition module_globals :: state where
  "module_globals =
     \<lparr>proxmox = None, connection_error_details = None,
      pyve_cpu_label = Text ''CPU (N/A)'', pyve_cpu_bar = 0,
      pyve_ram_label = Text ''RAM: Error'', pyve_ram_bar = 0,
      pyve_disk_label = Text ''Disk: Error'', pyve_disk_bar = 0,
      pyve_iodelay_label = Text ''I/O Delay: Error'', pyve_iodelay_bar = 0,
      pyve_iodelay_format = PercentP,
      vm_list = \<lparr>items = [], selected = None\<rparr>,
      container_list = \<lparr>items = [], selected = None\<rparr>,
      calls = [], logger = [], dialogs = [], timers = []\<rparr>"

text \<open>\<open>init_ui\<close> with \<open>init_pyve_tab\<close>: the widget fields as the constructor leaves them.\<close>

definition init_ui :: "state \<Rightarrow> state" where
  "init_ui st =
     (let initial_state = (if proxmox st \<noteq> None then ''Connecting...'' else ''Error'');
          initial_cores_threads = (if proxmox st \<noteq> None then ''Fetching...'' else ''N/A'');
          st1 = st\<lparr>vm_list := \<lparr>items = [], selected = None\<rparr>,
                   container_list := \<lparr>items = [], selected = None\<rparr>,
                   pyve_cpu_label := Text (''CPU ('' @ initial_cores_threads @ '')''),
                   pyve_cpu_bar := 0,
                   pyve_ram_label := Text (''RAM: '' @ initial_state),
                   pyve_ram_bar := 0,
                   pyve_disk_label := Text (''Disk: '' @ initial_state),
                   pyve_disk_bar := 0,
                   pyve_iodelay_label := Text (''I/O Delay: '' @ initial_state),
                   pyve_iodelay_bar := 0,
                   pyve_iodelay_format := PercentP\<rparr>
      in if proxmox st = None then set_error_state st1 else st1)"

text \<open>\<open>QListWidget.clear()\<close> and \<open>addItem\<close>.\<close>

definition clear :: "list_widget \<Rightarrow> list_widget" where
  "clear lw = lw\<lparr>items := [], selected := None\<rparr>"

definition addItem :: "list_item \<Rightarrow> list_widget \<Rightarrow> list_widget" where
  "addItem it lw = lw\<lparr>items := items lw @ [it]\<rparr>"

definition plain_item :: "string \<Rightarrow> list_item" where
  "plain_item s = \<lparr>item_text = s, background = None, foreground = None\<rparr>"

text \<open>Python's \<open>int(x)\<close> on a float: truncation towards zero.\<close>

definition py_int :: "rat \<Rightarrow> int" where
  "py_int x = (if 0 \<le> x then \<lfloor>x\<rfloor> else \<lceil>x\<rceil>)"

definition get_or :: "'a \<Rightarrow> 'a option \<Rightarrow> 'a" where
  "get_or d v = (case v of None \<Rightarrow> d | Some x \<Rightarrow> x)"

definition str_or_q :: "int option \<Rightarrow> string" where
  "str_or_q v = (case v of None \<Rightarrow> ''?'' | Some n \<Rightarrow> str_int n)"

text \<open>
  \<open>status.get(key, {}).get('used', 0) / (1024**3)\<close> and the same for \<open>'total'\<close> with the
  default 1, then \<open>(used / total) * 100 if total > 0 else 0\<close>.
\<close>

definition usage_used :: "usage option \<Rightarrow> rat" where
  "usage_used u =
     int_truediv (get_or 0 (case u of None \<Rightarrow> None | Some r \<Rightarrow> used r)) (1024 ^ 3)"

definition usage_total :: "usage option \<Rightarrow> rat" where
  "usage_total u =
     int_truediv (get_or 1 (case u of None \<Rightarrow> None | Some r \<Rightarrow> total r)) (1024 ^ 3)"

definition usage_percent :: "usage option \<Rightarrow> rat" where
  "usage_percent u =
     (if usage_total u > 0 then fmul (fdiv (usage_used u) (usage_total u)) 100 else 0)"

text \<open>
  \<open>QProgressBar.setValue\<close> on a bar with the default range 0 to 100, given the value the
  bar holds: a value outside the range leaves the bar as it is. (A value that does not
  fit a C \<open>int\<close> makes the binding raise; it is outside the model.)
\<close>

definition setValue :: "int \<Rightarrow> int \<Rightarrow> int" where
  "setValue v cur = (if 0 \<le> v \<and> v \<le> 100 then v else cur)"

text \<open>The part of \<open>update_stats\<close> between \<open>node.status.get()\<close> and \<open>node.qemu.get()\<close>.\<close>

definition show_status :: "node_status \<Rightarrow> state \<Rightarrow> state" where
  "show_status s st =
     (let cpu_percent = fmul (get_or 0 (cpu s)) 100;
          cpu_info = cpuinfo s;
          cores_t = str_or_q (case cpu_info of None \<Rightarrow> None | Some c \<Rightarrow> cores c);
          threads_t = str_or_q (case cpu_info of None \<Rightarrow> None | Some c \<Rightarrow> cpus c);
          io_delay = fmul (get_or 0 (wait s)) 100
      in st\<lparr>pyve_cpu_label := Text (''CPU ('' @ cores_t @ '' cores, '' @ threads_t @ '' threads)''),
             pyve_cpu_bar := setValue (py_int cpu_percent) (pyve_cpu_bar st),
             pyve_ram_label := GiB ''RAM'' (usage_used (memory s)) (usage_total (memory s)),
             pyve_ram_bar := setValue (py_int (usage_percent (memory s))) (pyve_ram_bar st),
             pyve_disk_label := GiB ''Disk'' (usage_used (rootfs s)) (usage_total (rootfs s)),
             pyve_disk_bar := setValue (py_int (usage_percent (rootfs s))) (pyve_disk_bar st),
             pyve_iodelay_label := Text ''I/O Delay'',
             pyve_iodelay_format := OneDecimal io_delay,
             pyve_iodelay_bar := setValue (py_int io_delay) (pyve_iodelay_bar st)\<rparr>)"

text \<open>\<open>str(v)\<close> of the value of \<open>.get(key)\<close>: an absent key prints as \<open>None\<close>.\<close>

definition str_int_opt :: "int option \<Rightarrow> string" where
  "str_int_opt v = (case v of None \<Rightarrow> ''None'' | Some n \<Rightarrow> str_int n)"

definition str_opt :: "string option \<Rightarrow> string" where
  "str_opt v = (case v of None \<Rightarrow> ''None'' | Some s \<Rightarrow> s)"

text \<open>The body of the loop over the guests: the row of one guest.\<close>

definition guest_item :: "guest \<Rightarrow> list_item" where
  "guest_item g =
     (let txt = ''ID: '' @ str_int_opt (vmid g) @ '' | '' @ str_opt (name g) @ '' | ''
                  @ str_opt (status g)
      in if status g = Some ''running'' then
           \<lparr>item_text = txt, background = Some ''#4CAF50'', foreground = Some ''black''\<rparr>
         else if status g = Some ''stopped'' then
           \<lparr>item_text = txt, background = Some ''#F44336'', foreground = Some ''white''\<rparr>
         else \<lparr>item_text = txt, background = None, foreground = None\<rparr>)"

text \<open>\<open>sorted(vms, key=lambda x: x.get('vmid', 0))\<close>: a stable sort.\<close>

definition vmid_key :: "guest \<Rightarrow> int" where
  "vmid_key g = get_or 0 (vmid g)"

definition sorted_guests :: "guest list \<Rightarrow> guest list" where
  "sorted_guests gs = sort_key vmid_key gs"

definition fill_list :: "guest list \<Rightarrow> list_widget \<Rightarrow> list_widget" where
  "fill_list gs lw = foldl (\<lambda>w g. addItem (guest_item g) w) (clear lw) (sorted_guests gs)"

text \<open>The two \<open>except\<close> branches of \<open>update_stats\<close>: the line that is logged.\<close>

definition poll_error_text :: "exn \<Rightarrow> string" where
  "poll_error_text e =
     (case e of
        ResourceException m \<Rightarrow> ''Proxmox API error: '' @ m
      | OtherException m \<Rightarrow> ''Unexpected error in update_stats: '' @ m)"

definition log_poll_error :: "exn \<Rightarrow> state \<Rightarrow> state" where
  "log_poll_error e st = st\<lparr>logger := logger st @ [LogError (poll_error_text e)]\<rparr>"

definition update_stats :: "backend \<Rightarrow> state \<Rightarrow> state" where
  "update_stats be st =
     (if proxmox st = None then
        (set_error_state st)
          \<lparr>vm_list := addItem (plain_item ''Disconnected'') (clear (vm_list st)),
           container_list := addItem (plain_item ''Disconnected'') (clear (container_list st))\<rparr>
      else
        (let st0 = st\<lparr>calls := calls st @ [NodeStatusGet]\<rparr>
         in case status_get be of
              Inl e \<Rightarrow> log_poll_error e st0
            | Inr s \<Rightarrow>
                (let st1 = show_status s st0;
                     st2 = st1\<lparr>calls := calls st1 @ [QemuGet]\<rparr>
                 in case qemu_get be of
                      Inl e \<Rightarrow> log_poll_error e st2
                    | Inr vms \<Rightarrow>
                        (let st3 = st2\<lparr>vm_list := fill_list vms (vm_list st2)\<rparr>;
                             st4 = st3\<lparr>calls := calls st3 @ [LxcGet]\<rparr>
                         in case lxc_get be of
                              Inl e \<Rightarrow> log_poll_error e st4
                            | Inr containers \<Rightarrow>
                                st4\<lparr>container_list :=
                                      fill_list containers (container_list st4)\<rparr>))))"

text \<open>\<open>list_widget.selectedItems()\<close>.\<close>

definition selectedItems :: "list_widget \<Rightarrow> list_item list" where
  "selectedItems lw =
     (case selected lw of
        None \<Rightarrow> []
      | Some i \<Rightarrow> if i < length (items lw) then [items lw ! i] else [])"

definition get_selected_vmid :: "list_widget \<Rightarrow> string \<Rightarrow> state \<Rightarrow> int option \<times> state" where
  "get_selected_vmid lw item_type st =
     (case selectedItems lw of
        [] \<Rightarrow> (None, st\<lparr>dialogs := dialogs st @
                 [Warning ''Selection'' (''Select a '' @ item_type @ '' first.'')]\<rparr>)
      | it # _ \<Rightarrow>
          (case re_search (item_text it) of
             Some g \<Rightarrow> (Some (int_of_digits g), st)
           | None \<Rightarrow> (None, st)))"

text \<open>The two \<open>except\<close> branches of \<open>_perform_action\<close>: the text of the message box.\<close>

definition action_error_text :: "exn \<Rightarrow> string" where
  "action_error_text e =
     (case e of
        ResourceException m \<Rightarrow> ''Action failed: '' @ m
      | OtherException m \<Rightarrow> ''Unexpected error: '' @ m)"

definition perform_action ::
    "backend \<Rightarrow> int option \<Rightarrow> action \<Rightarrow> resource_type \<Rightarrow> state \<Rightarrow> state" where
  "perform_action be v action_type rt st =
     (case v of
        None \<Rightarrow> st
      | Some i \<Rightarrow>
          if proxmox st = None then st
          else
            (let st1 = st\<lparr>calls := calls st @ [StatusPost rt i action_type]\<rparr>
             in case status_post be rt i action_type of
                  None \<Rightarrow> st1\<lparr>timers := timers st1 @ [(2000, UpdateStats)]\<rparr>
                | Some e \<Rightarrow>
                    st1\<lparr>dialogs := dialogs st1 @ [Critical ''Error'' (action_error_text e)]\<rparr>))"

definition start_vm :: "backend \<Rightarrow> state \<Rightarrow> state" where
  "start_vm be st =
     (case get_selected_vmid (vm_list st) ''VM'' st of (v, st1) \<Rightarrow> perform_action be v Start VM st1)"

definition stop_vm :: "backend \<Rightarrow> state \<Rightarrow> state" where
  "stop_vm be st =
     (case get_selected_vmid (vm_list st) ''VM'' st of (v, st1) \<Rightarrow> perform_action be v Stop VM st1)"

definition reboot_vm :: "backend \<Rightarrow> state \<Rightarrow> state" where
  "reboot_vm be st =
     (case get_selected_vmid (vm_list st) ''VM'' st of (v, st1) \<Rightarrow> perform_action be v Reboot VM st1)"

definition shutdown_vm :: "backend \<Rightarrow> state \<Rightarrow> state" where
  "shutdown_vm be st =
     (case get_selected_vmid (vm_list st) ''VM'' st of
        (v, st1) \<Rightarrow> perform_action be v Shutdown VM st1)"

definition start_container :: "backend \<Rightarrow> state \<Rightarrow> state" where
  "start_container be st =
     (case get_selected_vmid (container_list st) ''CT'' st of
        (v, st1) \<Rightarrow> perform_action be v Start Container st1)"

definition stop_container :: "backend \<Rightarrow> state \<Rightarrow> state" where
  "stop_container be st =
     (case get_selected_vmid (container_list st) ''CT'' st of
        (v, st1) \<Rightarrow> perform_action be v Stop Container st1)"

definition reboot_container :: "backend \<Rightarrow> state \<Rightarrow> state" where
  "reboot_container be st =
     (case get_selected_vmid (container_list st) ''CT'' st of
        (v, st1) \<Rightarrow> perform_action be v Reboot Container st1)"

definition shutdown_container :: "backend \<Rightarrow> state \<Rightarrow> state" where
  "shutdown_container be st =
     (case get_selected_vmid (container_list st) ''CT'' st of
        (v, st1) \<Rightarrow> perform_action be v Shutdown Container st1)"

text \<open>The button wired to each handler, by list and by action.\<close>

fun handler :: "resource_type \<Rightarrow> action \<Rightarrow> backend \<Rightarrow> state \<Rightarrow> state" where
  "handler VM Start = start_vm"
| "handler VM Stop = stop_vm"
| "handler VM Reboot = reboot_vm"
| "handler VM Shutdown = shutdown_vm"
| "handler Container Start = start_container"
| "handler Container Stop = stop_container"
| "handler Container Reboot = reboot_container"
| "handler Container Shutdown = shutdown_container"

text \<open>The list and the item type that the handlers of one tab pass on.\<close>

definition list_of :: "resource_type \<Rightarrow> state \<Rightarrow> list_widget" where
  "list_of rt st = (case rt of VM \<Rightarrow> vm_list st | Container \<Rightarrow> container_list st)"

definition item_type_of :: "resource_type \<Rightarrow> string" where
  "item_type_of rt = (case rt of VM \<Rightarrow> ''VM'' | Container \<Rightarrow> ''CT'')"

text \<open>The user selects row \<open>i\<close> of a list.\<close>

definition select_row :: "nat \<Rightarrow> list_widget \<Rightarrow> list_widget" where
  "select_row i lw = lw\<lparr>selected := Some i\<rparr>"

subsection \<open>Observations used in the statements\<close>

text \<open>The host part of the display, and the whole display.\<close>

definition host_gauges ::
    "state \<Rightarrow> (label \<times> int) \<times> (label \<times> int) \<times> (label \<times> int) \<times> (label \<times> int \<times> bar_format)" where
  "host_gauges st =
     ((pyve_cpu_label st, pyve_cpu_bar st), (pyve_ram_label st, pyve_ram_bar st),
      (pyve_disk_label st, pyve_disk_bar st),
      (pyve_iodelay_label st, pyve_iodelay_bar st, pyve_iodelay_format st))"

definition displayed :: "state \<Rightarrow> _ \<times> list_widget \<times> list_widget" where
  "displayed st = (host_gauges st, vm_list st, container_list st)"

text \<open>The first fetch of a tick that raises, in the order in which the tick fetches.\<close>

definition poll_error :: "backend \<Rightarrow> exn option" where
  "poll_error be =
     (case status_get be of
        Inl e \<Rightarrow> Some e
      | Inr _ \<Rightarrow>
          (case qemu_get be of
             Inl e \<Rightarrow> Some e
           | Inr _ \<Rightarrow> (case lxc_get be of Inl e \<Rightarrow> Some e | Inr _ \<Rightarrow> None)))"

text \<open>
  A valid host snapshot: every field present, the two fractions floats in \<open>[0,1]\<close>, and
  \<open>0 \<le> used \<le> total\<close> with \<open>total > 0\<close> for memory and disk.
\<close>

definition valid_usage :: "usage option \<Rightarrow> bool" where
  "valid_usage u =
     (case u of
        None \<Rightarrow> False
      | Some r \<Rightarrow>
          (case (used r, total r) of
             (Some a, Some b) \<Rightarrow> 0 \<le> a \<and> a \<le> b \<and> 0 < b
           | _ \<Rightarrow> False))"

definition valid_fraction :: "rat option \<Rightarrow> bool" where
  "valid_fraction x =
     (case x of None \<Rightarrow> False | Some c \<Rightarrow> is_double c \<and> 0 \<le> c \<and> c \<le> 1)"

definition valid_host_status :: "node_status \<Rightarrow> bool" where
  "valid_host_status s =
     (valid_fraction (cpu s) \<and> valid_fraction (wait s) \<and> valid_usage (memory s)
      \<and> valid_usage (rootfs s))"

text \<open>
  The byte counts for which the divisions by \<open>1024**3\<close> stay in the range of the doubles.
\<close>

definition usage_in_range :: "usage option \<Rightarrow> bool" where
  "usage_in_range u =
     (case u of None \<Rightarrow> True | Some r \<Rightarrow> get_or 0 (used r) < 2 ^ 1024 \<and> get_or 1 (total r) < 2 ^ 1024)"

definition float_range :: "node_status \<Rightarrow> bool" where
  "float_range s = (usage_in_range (memory s) \<and> usage_in_range (rootfs s))"

text \<open>
  The fractional field of a gauge: the float of the snapshot, or the float quotient of
  used and total in GiB.
\<close>

definition fraction_of :: "rat option \<Rightarrow> rat" where
  "fraction_of x = get_or 0 x"

definition used_fraction :: "usage option \<Rightarrow> rat" where
  "used_fraction u = fdiv (usage_used u) (usage_total u)"

text \<open>The four gauge values, and the four fractional fields they are computed from.\<close>

definition gauge_values :: "state \<Rightarrow> int list" where
  "gauge_values st = [pyve_cpu_bar st, pyve_ram_bar st, pyve_disk_bar st, pyve_iodelay_bar st]"

definition gauge_fields :: "node_status \<Rightarrow> rat list" where
  "gauge_fields s =
     [fraction_of (cpu s), used_fraction (memory s), used_fraction (rootfs s),
      fraction_of (wait s)]"

text \<open>
  The percentage of a fractional field, first as the specification words it
  (\<open>round(field * 100)\<close>), then as the integer part of the float product.
\<close>

definition rounded_percent :: "rat \<Rightarrow> int" where
  "rounded_percent x = round (x * 100)"

definition truncated_percent :: "rat \<Rightarrow> int" where
  "truncated_percent x = \<lfloor>fmul x 100\<rfloor>"

definition percentage :: "int \<Rightarrow> bool" where
  "percentage p = (0 \<le> p \<and> p \<le> 100)"

text \<open>Startup: an attempt succeeds when the constructor and the version query both return.\<close>

definition attempt_ok :: "startup_backend \<Rightarrow> nat \<Rightarrow> bool" where
  "attempt_ok sb i =
     (case api_connect sb i of Inl _ \<Rightarrow> False | Inr _ \<Rightarrow> version_get sb i = None)"

definition attempt_events :: "startup_backend \<Rightarrow> nat \<Rightarrow> event list" where
  "attempt_events sb i =
     (case api_connect sb i of Inl _ \<Rightarrow> [Connect] | Inr _ \<Rightarrow> [Connect, VersionGet])"

definition connects :: "event list \<Rightarrow> nat" where
  "connects es = length (filter (\<lambda>e. e = Connect) es)"

subsection \<open>Example inputs\<close>

text \<open>A widget built with a session, and one built without.\<close>

definition ex_connected :: state where
  "ex_connected = init_ui (module_globals\<lparr>proxmox := Some (ProxmoxAPI 0)\<rparr>)"

definition ex_disconnected :: state where
  "ex_disconnected = init_ui module_globals"

text \<open>
  A host at 18.75 percent CPU, 4 of 8 GiB of memory, 10 of 40 GiB of disk and 3.125
  percent I/O wait. All operations on these values are exact in doubles.
\<close>

definition ex_status :: node_status where
  "ex_status =
     \<lparr>cpu = Some (3 / 16), cpuinfo = Some \<lparr>cores = Some 4, cpus = Some 8\<rparr>,
      memory = Some \<lparr>used = Some 4294967296, total = Some 8589934592\<rparr>,
      rootfs = Some \<lparr>used = Some 10737418240, total = Some 42949672960\<rparr>,
      wait = Some (1 / 32)\<rparr>"

text \<open>
  A host whose CPU fraction is the double nearest to 0.37, with 29 of 100 GiB of memory:
  the float products are \<open>37.0\<close> (above the exact product) and \<open>28.999999999999996\<close>
  (below the exact percentage 29).
\<close>

definition ex_status_inexact :: node_status where
  "ex_status_inexact =
     \<lparr>cpu = Some (3332663724254167 / 9007199254740992),
      cpuinfo = Some \<lparr>cores = Some 4, cpus = Some 8\<rparr>,
      memory = Some \<lparr>used = Some 31138512896, total = Some 107374182400\<rparr>,
      rootfs = Some \<lparr>used = Some 10737418240, total = Some 42949672960\<rparr>,
      wait = Some (1 / 32)\<rparr>"

definition ex_backend_inexact :: backend where
  "ex_backend_inexact =
     \<lparr>status_get = Inr ex_status_inexact, qemu_get = Inr [], lxc_get = Inr [],
      status_post = (\<lambda>rt i a. None)\<rparr>"

definition ex_guests :: "guest list" where
  "ex_guests =
     [\<lparr>vmid = Some 101, name = Some ''web | ID: 7'', status = Some ''running''\<rparr>,
      \<lparr>vmid = Some 55, name = Some ''db'', status = Some ''stopped''\<rparr>]"

definition ex_backend :: backend where
  "ex_backend =
     \<lparr>status_get = Inr ex_status, qemu_get = Inr ex_guests, lxc_get = Inr [],
      status_post = (\<lambda>rt i a. None)\<rparr>"

definition ex_backend_qemu_fails :: backend where
  "ex_backend_qemu_fails =
     ex_backend\<lparr>qemu_get := Inl (ResourceException ''500 Internal Server Error'')\<rparr>"

definition ex_backend_post_fails :: backend where
  "ex_backend_post_fails =
     ex_backend\<lparr>status_post := (\<lambda>rt i a. Some (ResourceException ''500 VM is locked''))\<rparr>"

definition ex_backend_no_vmid :: backend where
  "ex_backend_no_vmid =
     ex_backend\<lparr>qemu_get := Inr [\<lparr>vmid = None, name = Some ''web'', status = Some ''running''\<rparr>]\<rparr>"

text \<open>After one good tick the user selects the second row of the VM list.\<close>

definition ex_selected :: state where
  "ex_selected =
     (let st = update_stats ex_backend ex_connected
      in st\<lparr>vm_list := select_row 1 (vm_list st)\<rparr>)"

text \<open>After a tick that lists a guest without \<open>vmid\<close> the user selects its row.\<close>

definition ex_selected_no_vmid :: state where
  "ex_selected_no_vmid =
     (let st = update_stats ex_backend_no_vmid ex_connected
      in st\<lparr>vm_list := select_row 0 (vm_list st)\<rparr>)"

text \<open>A widget without a session whose VM list holds guest rows, the first one selected.\<close>

definition ex_disconnected_selected :: state where
  "ex_disconnected_selected =
     ex_disconnected\<lparr>vm_list := \<lparr>items = map guest_item ex_guests, selected = Some 0\<rparr>\<rparr>"

text \<open>A startup in which the first attempt times out and the second one succeeds.\<close>

definition ex_startup :: startup_backend where
  "ex_startup =
     \<lparr>api_connect = (\<lambda>i. if i = 0 then Inl (OtherException ''timed out'') else Inr (ProxmoxAPI i)),
      version_get = (\<lambda>i. None)\<rparr>"

definition ex_config :: config where
  "ex_config = \<lparr>PROXMOX_HOST = ''10.0.0.2'', PROXMOX_NODE = ''pve''\<rparr>"

definition ex_guest :: guest where
  "ex_guest = \<lparr>vmid = Some 101, name = Some ''web | ID: 7'', status = Some ''running''\<rparr>"

section \<open>Properties\<close>

subsection \<open>Decimal strings and the identifier pattern\<close>

lemma digit_char_is_digit: "d < 10 \<Longrightarrow> is_digit (digit_char d)"
  by (simp add: is_digit_def digit_char_def)

lemma digit_val_digit_char: "d < 10 \<Longrightarrow> digit_val (digit_char d) = d"
  by (simp add: digit_val_def digit_char_def)

lemma digits_all_digit: "c \<in> set (digits n) \<Longrightarrow> is_digit c"
proof (induction n arbitrary: c rule: digits.induct)
  case (1 n)
  show ?case
  proof (cases "n < 10")
    case True
    with "1.prems" show ?thesis
      by (simp add: digits.simps [of n] digit_char_is_digit)
  next
    case False
    with "1.prems" "1.IH" show ?thesis
      by (auto simp: digits.simps [of n] digit_char_is_digit)
  qed
qed

lemma digits_not_Nil: "digits n \<noteq> []"
  by (subst digits.simps) simp

lemma foldl_digits: "foldl (\<lambda>acc c. 10 * acc + digit_val c) 0 (digits n) = n"
proof (induction n rule: digits.induct)
  case (1 n)
  show ?case
  proof (cases "n < 10")
    case True
    then show ?thesis
      by (simp add: digits.simps [of n] digit_val_digit_char)
  next
    case False
    with "1.IH" show ?thesis
      by (simp add: digits.simps [of n] digit_val_digit_char)
  qed
qed

lemma int_of_digits_str_int: "0 \<le> v \<Longrightarrow> int_of_digits (str_int v) = v"
  by (simp add: int_of_digits_def str_int_def foldl_digits)

lemma digit_not_space: "is_digit c \<Longrightarrow> \<not> is_space c"
  by (simp add: is_digit_def is_space_def Let_def)

lemma space_is_space: "is_space CHR '' ''"
  by (simp add: is_space_def)

lemma space_not_digit: "\<not> is_digit CHR '' ''"
  by (simp add: is_digit_def)

lemma takeWhile_digits: "takeWhile is_digit (digits n @ CHR '' '' # rest) = digits n"
  by (simp add: takeWhile_tail space_not_digit digits_all_digit)

lemma dropWhile_digits: "dropWhile is_space (CHR '' '' # digits n @ rest) = digits n @ rest"
proof -
  obtain d ds where "digits n = d # ds"
    using digits_not_Nil [of n] by (cases "digits n") auto
  moreover from this have "is_digit d"
    using digits_all_digit [of d n] by simp
  ultimately show ?thesis
    by (simp add: space_is_space digit_not_space)
qed

lemma match_here_row: "match_here (''ID: '' @ digits n @ CHR '' '' # rest) = Some (digits n)"
  using dropWhile_digits [of n "CHR '' '' # rest"] takeWhile_digits [of n rest]
    digits_not_Nil [of n]
  by simp

lemma re_search_row: "re_search (''ID: '' @ digits n @ CHR '' '' # rest) = Some (digits n)"
  using match_here_row [of n rest] by simp

lemma item_text_guest_item:
  "item_text (guest_item g) =
     ''ID: '' @ str_int_opt (vmid g) @ '' | '' @ str_opt (name g) @ '' | '' @ str_opt (status g)"
  by (simp add: guest_item_def Let_def)

lemma re_search_guest_item:
  assumes "0 \<le> v" and "vmid g = Some v"
  shows "re_search (item_text (guest_item g)) = Some (str_int v)"
  using assms
    re_search_row [of "nat v" "''| '' @ str_opt (name g) @ '' | '' @ str_opt (status g)"]
  by (simp add: item_text_guest_item str_int_opt_def str_int_def)

lemma selectedItems_select_row:
  "i < length (items lw) \<Longrightarrow> selectedItems (select_row i lw) = [items lw ! i]"
  by (simp add: selectedItems_def select_row_def)

subsection \<open>The handlers\<close>

lemma handler_unfold:
  "handler rt a be st =
     (case get_selected_vmid (list_of rt st) (item_type_of rt) st of
        (v, st1) \<Rightarrow> perform_action be v a rt st1)"
  by (cases rt; cases a)
     (simp_all add: list_of_def item_type_of_def start_vm_def stop_vm_def reboot_vm_def
        shutdown_vm_def start_container_def stop_container_def reboot_container_def
        shutdown_container_def)

lemma get_selected_vmid_Some:
  "fst (get_selected_vmid lw ty st) = Some v \<Longrightarrow> get_selected_vmid lw ty st = (Some v, st)"
  by (auto simp: get_selected_vmid_def split: list.splits option.splits)

lemma get_selected_vmid_None:
  "fst (get_selected_vmid lw ty st) = None \<Longrightarrow>
   get_selected_vmid lw ty st =
     (None,
      if selectedItems lw = []
      then st\<lparr>dialogs := dialogs st @
             [Warning ''Selection'' (''Select a '' @ ty @ '' first.'')]\<rparr>
      else st)"
  by (auto simp: get_selected_vmid_def split: list.splits option.splits)

lemma perform_action_None: "perform_action be None a rt st = st"
  by (simp add: perform_action_def)

lemma proxmox_update_stats: "proxmox (update_stats be st) = proxmox st"
  by (simp add: update_stats_def set_error_state_def show_status_def log_poll_error_def Let_def
      split: sum.splits)

lemma proxmox_get_selected: "proxmox (snd (get_selected_vmid lw ty st)) = proxmox st"
  by (simp add: get_selected_vmid_def split: list.splits option.splits)

lemma proxmox_perform_action: "proxmox (perform_action be v a rt st) = proxmox st"
  by (simp add: perform_action_def Let_def split: option.splits)

lemma connects_append: "connects (xs @ ys) = connects xs + connects ys"
  by (simp add: connects_def)

lemma connects_Sleep: "connects (Sleep n # es) = connects es"
  by (simp add: connects_def)

lemma connects_attempt_events: "connects (attempt_events sb i) = 1"
  by (simp add: attempt_events_def connects_def split: sum.splits)

lemma connects_update_stats: "connects (calls (update_stats be st)) = connects (calls st)"
  by (simp add: update_stats_def set_error_state_def show_status_def log_poll_error_def Let_def
      connects_def split: sum.splits)

lemma calls_get_selected: "calls (snd (get_selected_vmid lw ty st)) = calls st"
  by (simp add: get_selected_vmid_def split: list.splits option.splits)

lemma connects_perform_action:
  "connects (calls (perform_action be v a rt st)) = connects (calls st)"
  by (simp add: perform_action_def Let_def connects_def split: option.splits)

subsection \<open>Rounding to a double\<close>

lemma rhe_le: "x \<le> of_int n \<Longrightarrow> round_half_even x \<le> n"
  unfolding round_half_even_def Let_def by (auto; linarith)

lemma rhe_ge: "of_int n \<le> x \<Longrightarrow> n \<le> round_half_even x"
  unfolding round_half_even_def Let_def by (auto; linarith)

lemma rhe_mono: "x \<le> y \<Longrightarrow> round_half_even x \<le> round_half_even y"
proof (cases "\<lfloor>x\<rfloor> = \<lfloor>y\<rfloor>")
  case True
  assume "x \<le> y"
  with True show ?thesis
    unfolding round_half_even_def Let_def by auto
next
  case False
  assume "x \<le> y"
  with False have "\<lfloor>x\<rfloor> + 1 \<le> \<lfloor>y\<rfloor>"
    using floor_mono [of x y] by linarith
  moreover have "round_half_even x \<le> \<lfloor>x\<rfloor> + 1"
    unfolding round_half_even_def Let_def by auto
  moreover have "\<lfloor>y\<rfloor> \<le> round_half_even y"
    unfolding round_half_even_def Let_def by auto
  ultimately show ?thesis by linarith
qed

lemma ilog2_bounds:
  assumes "0 < x"
  shows "2 powi (ilog2 x) \<le> x" and "x < 2 powi (ilog2 x + 1)"
proof -
  obtain n d where q: "quotient_of x = (n, d)"
    by (cases "quotient_of x")
  have d: "0 < d" using quotient_of_denom_pos [OF q] .
  have x: "x = of_int n / of_int d" using quotient_of_div [OF q] .
  have n: "0 < n" using assms d x by (simp add: zero_less_divide_iff)
  define bn bd where "bn = bitlen n" and "bd = bitlen d"
  have bn: "1 \<le> bn" and bd: "1 \<le> bd"
    using n d by (simp_all add: bn_def bd_def bitlen_alt_def)
  have pw: "(2::rat) powi k = of_int (2 ^ nat k)" if "0 \<le> k" for k
    using that by (simp add: power_int_def)
  have n1: "(2::rat) powi (bn - 1) \<le> of_int n" and n2: "of_int n < (2::rat) powi bn"
    using bitlen_bounds [OF n] bn unfolding bn_def [symmetric]
    by (simp_all only: pw of_int_le_iff of_int_less_iff)
  have d1: "(2::rat) powi (bd - 1) \<le> of_int d" and d2: "of_int d < (2::rat) powi bd"
    using bitlen_bounds [OF d] bd unfolding bd_def [symmetric]
    by (simp_all only: pw of_int_le_iff of_int_less_iff)
  have dpos: "(0::rat) < of_int d" using d by simp
  have "(2::rat) powi (bn - bd - 1) * of_int d < 2 powi (bn - bd - 1) * 2 powi bd"
    using d2 by simp
  also have "\<dots> = 2 powi (bn - 1)"
    by (simp add: power_int_add [symmetric])
  also have "\<dots> \<le> of_int n" by (rule n1)
  finally have lo: "(2::rat) powi (bn - bd - 1) < x"
    unfolding x using dpos by (simp add: pos_less_divide_eq)
  have "of_int n < (2::rat) powi bn" by (rule n2)
  also have "\<dots> = 2 powi (bn - bd + 1) * 2 powi (bd - 1)"
    by (simp add: power_int_add [symmetric])
  also have "\<dots> \<le> 2 powi (bn - bd + 1) * of_int d"
    using d1 by simp
  finally have hi: "x < (2::rat) powi (bn - bd + 1)"
    unfolding x using dpos by (simp add: pos_divide_less_eq)
  show "2 powi (ilog2 x) \<le> x" and "x < 2 powi (ilog2 x + 1)"
    using lo hi by (auto simp: ilog2_def q Let_def bn_def bd_def not_le)
qed


lemma ilog2_ge:
  assumes "0 < x" and "2 powi j \<le> x"
  shows "j \<le> ilog2 x"
proof (rule ccontr)
  assume "\<not> j \<le> ilog2 x"
  then have "ilog2 x + 1 \<le> j" by simp
  then have "(2::rat) powi (ilog2 x + 1) \<le> 2 powi j"
    by (intro power_int_increasing) simp_all
  with assms(2) ilog2_bounds(2) [OF assms(1)] show False by simp
qed

lemma ilog2_less:
  assumes "0 < x" and "x < 2 powi j"
  shows "ilog2 x < j"
proof (rule ccontr)
  assume "\<not> ilog2 x < j"
  then have "(2::rat) powi j \<le> 2 powi (ilog2 x)"
    by (intro power_int_increasing) simp_all
  with assms(2) ilog2_bounds(1) [OF assms(1)] show False by simp
qed

lemma ilog2_mono: "0 < x \<Longrightarrow> x \<le> y \<Longrightarrow> ilog2 x \<le> ilog2 y"
  using ilog2_ge [of y "ilog2 x"] ilog2_bounds(1) [of x] by simp

lemma quantum_pos: "0 < quantum x"
  by (simp add: quantum_def)

lemma round_double_le_grid:
  assumes "0 < x" and "x \<le> y" and "y / quantum x = of_int m"
  shows "round_double x \<le> y"
proof -
  have "x / quantum x \<le> of_int m"
    using assms(2) quantum_pos [of x] by (simp add: assms(3) [symmetric] divide_right_mono)
  then have "round_half_even (x / quantum x) \<le> m" by (rule rhe_le)
  then have "of_int (round_half_even (x / quantum x)) * quantum x \<le> of_int m * quantum x"
    using quantum_pos [of x] by simp
  also have "\<dots> = y"
    using quantum_pos [of x] by (simp add: assms(3) [symmetric])
  finally show ?thesis
    using assms(1) by (simp add: round_double_def)
qed

lemma round_double_ge_grid:
  assumes "0 < x" and "y \<le> x" and "y / quantum x = of_int m"
  shows "y \<le> round_double x"
proof -
  have "of_int m \<le> x / quantum x"
    using assms(2) quantum_pos [of x] by (simp add: assms(3) [symmetric] divide_right_mono)
  then have "m \<le> round_half_even (x / quantum x)" by (rule rhe_ge)
  then have "of_int m * quantum x \<le> of_int (round_half_even (x / quantum x)) * quantum x"
    using quantum_pos [of x] by simp
  moreover have "of_int m * quantum x = y"
    using quantum_pos [of x] by (simp add: assms(3) [symmetric])
  ultimately show ?thesis
    using assms(1) by (simp add: round_double_def)
qed

lemma round_double_nonneg: "0 \<le> x \<Longrightarrow> 0 \<le> round_double x"
  using round_double_ge_grid [of x 0 0] by (cases "x = 0") (simp_all add: round_double_def)

lemma powi_int: "0 \<le> k \<Longrightarrow> (2::rat) powi k = of_int (2 ^ nat k)"
  by (simp add: power_int_def)

lemma round_double_le_int:
  assumes "0 < x" and "x \<le> of_int n" and "n < 2 ^ 53"
  shows "round_double x \<le> of_int n"
proof -
  have "x < 2 powi 53"
    using assms(2,3) by (simp add: less_le_trans [OF _ order_refl] order_le_less_trans)
  then have e: "ilog2 x < 53" by (rule ilog2_less [OF assms(1)])
  define k where "k = 52 - max (ilog2 x) (- 1022)"
  have k: "0 \<le> k" using e by (simp add: k_def)
  have "quantum x = 2 powi (- k)"
    using assms(1) by (simp add: quantum_def k_def)
  then have "of_int n / quantum x = of_int n * 2 powi k"
    by (simp add: power_int_minus divide_inverse)
  also have "\<dots> = of_int (n * 2 ^ nat k)"
    by (simp add: powi_int [OF k])
  finally show ?thesis
    by (rule round_double_le_grid [OF assms(1,2)])
qed

lemma round_double_ge_pow:
  assumes "0 < x" and "- 1022 \<le> ilog2 x"
  shows "2 powi (ilog2 x) \<le> round_double x"
proof -
  have q: "quantum x = 2 powi (ilog2 x - 52)"
    using assms by (simp add: quantum_def max_def)
  have "2 powi (ilog2 x) / quantum x = 2 powi (ilog2 x - (ilog2 x - 52))"
    unfolding q by (rule power_int_diff [symmetric]) simp
  also have "\<dots> = of_int (2 ^ 52)" by simp
  finally show ?thesis
    by (rule round_double_ge_grid [OF assms(1) ilog2_bounds(1) [OF assms(1)]])
qed

lemma round_double_le_pow:
  assumes "0 < x"
  shows "round_double x \<le> 2 powi (max (ilog2 x) (- 1022) + 1)"
proof -
  have "x < 2 powi (ilog2 x + 1)" by (rule ilog2_bounds(2) [OF assms])
  also have "\<dots> \<le> 2 powi (max (ilog2 x) (- 1022) + 1)"
    by (intro power_int_increasing) simp_all
  finally have le: "x \<le> 2 powi (max (ilog2 x) (- 1022) + 1)" by simp
  have "2 powi (max (ilog2 x) (- 1022) + 1) / quantum x = 2 powi 53"
    using assms by (simp add: quantum_def power_int_diff [symmetric])
  also have "\<dots> = of_int (2 ^ 53)" by simp
  finally show ?thesis
    by (rule round_double_le_grid [OF assms le])
qed

lemma round_double_mono:
  assumes "0 \<le> x" and "x \<le> y"
  shows "round_double x \<le> round_double y"
proof (cases "x = 0")
  case True
  then show ?thesis
    using round_double_nonneg [of y] assms by (simp add: round_double_def)
next
  case False
  with assms have x: "0 < x" and y: "0 < y" by simp_all
  have e: "ilog2 x \<le> ilog2 y" by (rule ilog2_mono [OF x assms(2)])
  show ?thesis
  proof (cases "max (ilog2 x) (- 1022) = max (ilog2 y) (- 1022)")
    case True
    then have q: "quantum x = quantum y"
      using x y by (simp add: quantum_def)
    have "x / quantum y \<le> y / quantum y"
      using assms(2) quantum_pos [of y] by (simp add: divide_right_mono)
    then have "round_half_even (x / quantum y) \<le> round_half_even (y / quantum y)"
      by (rule rhe_mono)
    then show ?thesis
      using x y quantum_pos [of y] by (simp add: round_double_def q)
  next
    case False
    with e have lt: "max (ilog2 x) (- 1022) + 1 \<le> ilog2 y" and n: "- 1022 \<le> ilog2 y"
      by (simp_all add: max_def split: if_splits)
    have "round_double x \<le> 2 powi (max (ilog2 x) (- 1022) + 1)"
      by (rule round_double_le_pow [OF x])
    also have "\<dots> \<le> 2 powi (ilog2 y)"
      using lt by (intro power_int_increasing) simp_all
    also have "\<dots> \<le> round_double y"
      by (rule round_double_ge_pow [OF y n])
    finally show ?thesis .
  qed
qed

lemma round_double_le_nat:
  assumes "0 \<le> x" and "x \<le> of_int n" and "n < 2 ^ 53"
  shows "round_double x \<le> of_int n"
proof (cases "x = 0")
  case True
  with assms(2) show ?thesis by (simp add: round_double_def)
next
  case False
  with assms(1) have "0 < x" by simp
  then show ?thesis by (rule round_double_le_int [OF _ assms(2,3)])
qed

lemma round_double_pos:
  assumes "2 powi (- 1022) \<le> x"
  shows "0 < round_double x"
proof -
  have x: "0 < x"
    using assms less_le_trans [of 0 "2 powi (- 1022)" x] by simp
  have "- 1022 \<le> ilog2 x" by (rule ilog2_ge [OF x assms])
  then have "2 powi (ilog2 x) \<le> round_double x" by (rule round_double_ge_pow [OF x])
  moreover have "(0::rat) < 2 powi (ilog2 x)" by simp
  ultimately show ?thesis by (rule less_le_trans [rotated])
qed

subsection \<open>The gauges\<close>

lemma fmul_100_bounds:
  assumes "0 \<le> x" and "x \<le> 1"
  shows "0 \<le> fmul x 100" and "fmul x 100 \<le> 100"
proof -
  have "0 \<le> x * 100" and le: "x * 100 \<le> of_int 100"
    using assms by simp_all
  then show "0 \<le> fmul x 100"
    unfolding fmul_def by (intro round_double_nonneg)
  have "round_double (x * 100) \<le> of_int 100"
    by (rule round_double_le_nat [OF \<open>0 \<le> x * 100\<close> le]) simp
  then show "fmul x 100 \<le> 100"
    by (simp add: fmul_def)
qed

lemma truncated_percent_bounds:
  assumes "0 \<le> x" "x \<le> 1"
  shows "py_int (fmul x 100) = truncated_percent x" and "percentage (truncated_percent x)"
  using fmul_100_bounds [OF assms]
  by (simp_all add: py_int_def truncated_percent_def percentage_def floor_le_iff le_floor_iff)

lemma setValue_percentage: "percentage v \<Longrightarrow> setValue v cur = v"
  by (simp add: setValue_def percentage_def)

lemma usage_percent_valid:
  assumes "valid_usage u"
  shows "usage_percent u = fmul (used_fraction u) 100"
    and "0 \<le> used_fraction u" and "used_fraction u \<le> 1"
proof -
  from assms obtain r a b where u: "u = Some r" "used r = Some a" "total r = Some b"
    and ab: "0 \<le> a" "a \<le> b" "0 < b"
    by (auto simp: valid_usage_def split: option.splits prod.splits)
  have used: "usage_used u = round_double (of_int a / 1024 ^ 3)"
    and total: "usage_total u = round_double (of_int b / 1024 ^ 3)"
    using u by (simp_all add: usage_used_def usage_total_def int_truediv_def get_or_def)
  have a0: "(0::rat) \<le> of_int a / 1024 ^ 3"
    using ab(1) by simp
  have le: "(of_int a :: rat) / 1024 ^ 3 \<le> of_int b / 1024 ^ 3"
    using ab(2) by (simp add: divide_right_mono)
  have "(1::rat) \<le> of_int b" using ab(3) by simp
  then have "(1::rat) / 1024 ^ 3 \<le> of_int b / 1024 ^ 3"
    by (simp add: divide_right_mono)
  moreover have "(2::rat) powi (- 1022) \<le> 1 / 1024 ^ 3"
  proof -
    have "(2::rat) powi (- 30) = 1 / 1024 ^ 3"
      by (simp add: power_int_minus field_simps)
    moreover have "(2::rat) powi (- 1022) \<le> 2 powi (- 30)"
      by (intro power_int_increasing) simp_all
    ultimately show ?thesis by simp
  qed
  ultimately have "(2::rat) powi (- 1022) \<le> of_int b / 1024 ^ 3"
    by (rule order_trans [rotated])
  then have tpos: "0 < usage_total u"
    unfolding total by (rule round_double_pos)
  have upos: "0 \<le> usage_used u"
    unfolding used by (rule round_double_nonneg [OF a0])
  have ule: "usage_used u \<le> usage_total u"
    unfolding used total by (rule round_double_mono [OF a0 le])
  have q0: "0 \<le> usage_used u / usage_total u"
    using upos tpos by simp
  have q1: "usage_used u / usage_total u \<le> of_int 1"
    using ule tpos by (simp add: pos_divide_le_eq)
  show "usage_percent u = fmul (used_fraction u) 100"
    using tpos by (simp add: usage_percent_def used_fraction_def)
  show "0 \<le> used_fraction u"
    unfolding used_fraction_def fdiv_def by (rule round_double_nonneg [OF q0])
  have "round_double (usage_used u / usage_total u) \<le> of_int 1"
    by (rule round_double_le_nat [OF q0 q1]) simp
  then show "used_fraction u \<le> 1"
    by (simp add: used_fraction_def fdiv_def)
qed

lemma valid_fraction_bounds:
  assumes "valid_fraction x"
  shows "0 \<le> fraction_of x" and "fraction_of x \<le> 1"
  using assms by (auto simp: valid_fraction_def fraction_of_def get_or_def split: option.splits)

lemma update_stats_gauge_values:
  assumes "proxmox st \<noteq> None" "status_get be = Inr s"
  shows "gauge_values (update_stats be st) =
     [setValue (py_int (fmul (fraction_of (cpu s)) 100)) (pyve_cpu_bar st),
      setValue (py_int (usage_percent (memory s))) (pyve_ram_bar st),
      setValue (py_int (usage_percent (rootfs s))) (pyve_disk_bar st),
      setValue (py_int (fmul (fraction_of (wait s)) 100)) (pyve_iodelay_bar st)]"
proof -
  obtain h where "proxmox st = Some h"
    using assms(1) by auto
  then show ?thesis
    using assms(2)
    by (simp add: update_stats_def Let_def gauge_values_def show_status_def log_poll_error_def
        fraction_of_def split: sum.splits)
qed

subsection \<open>The guest lists\<close>

lemma items_foldl_addItem:
  "items (foldl (\<lambda>w g. addItem (guest_item g) w) w0 gs) = items w0 @ map guest_item gs"
  by (induction gs arbitrary: w0) (simp_all add: addItem_def)

lemma items_fill_list: "items (fill_list gs lw) = map guest_item (sorted_guests gs)"
  by (simp add: fill_list_def items_foldl_addItem clear_def)

lemma sorted_guests_props:
  "sorted (map vmid_key (sorted_guests gs))" "mset (sorted_guests gs) = mset gs"
  "length (sorted_guests gs) = length gs"
  by (simp_all add: sorted_guests_def)

subsection \<open>Startup\<close>

lemma attempts_ok:
  assumes "attempt_ok sb i"
  shows "fst (attempts cfg sb (i # rest) st)"
    and "calls (snd (attempts cfg sb (i # rest) st)) = calls st @ attempt_events sb i"
  using assms
  by (simp_all add: attempt_ok_def attempt_events_def Let_def split: sum.splits option.splits)

lemma attempts_not_ok:
  assumes "\<not> attempt_ok sb i"
  obtains st1 where "attempts cfg sb (i # rest) st = attempts cfg sb rest st1"
    and "calls st1 = calls st @ attempt_events sb i
           @ (if i < max_retries - 1 then [Sleep 2] else [])"
proof (cases "api_connect sb i")
  case (Inl e)
  then show ?thesis
    using that [of "attempt_failed i e (st\<lparr>calls := calls st @ [Connect]\<rparr>)"]
    by (simp add: attempt_events_def attempt_failed_def Let_def)
next
  case (Inr h)
  with assms obtain e where "version_get sb i = Some e"
    by (auto simp: attempt_ok_def)
  with Inr show ?thesis
    using that [of "attempt_failed i e
        (st\<lparr>proxmox := Some h, calls := calls st @ [Connect, VersionGet]\<rparr>)"]
    by (simp add: attempt_events_def attempt_failed_def Let_def)
qed

section \<open>The claims\<close>

subsection \<open>C1: the gauge percentages\<close>

text \<open>
  The claim as worded fails. \<open>update_stats\<close> passes \<open>int(cpu_percent)\<close> to the CPU bar, and
  \<open>int\<close> truncates: for the valid snapshot \<open>ex_status\<close> with a CPU fraction of
  \<open>3/16\<close> the float product is exactly 18.75 and the tick shows 18, while
  \<open>round(18.75)\<close> is 19.
\<close>

theorem gauges_not_rounded_counterexample:
  "proxmox ex_connected \<noteq> None \<and> status_get ex_backend = Inr ex_status \<and>
   valid_host_status ex_status \<and>
   gauge_fields ex_status = [3 / 16, 1 / 2, 1 / 4, 1 / 32] \<and>
   gauge_values (update_stats ex_backend ex_connected) = [18, 50, 25, 3] \<and>
   map rounded_percent (gauge_fields ex_status) = [19, 50, 25, 3] \<and>
   gauge_values (update_stats ex_backend ex_connected)
     \<noteq> map rounded_percent (gauge_fields ex_status)"
  by code_simp

text \<open>
  \<^bold>\<open>C1\<close> (amended). For every valid host snapshot whose byte counts are in the range of
  the doubles, each of the four gauge values that a poll tick of a connected widget
  displays is the integer part of the float product \<open>field * 100\<close> of the corresponding
  fractional field (the CPU fraction, the float quotient of used and total memory, the
  same for the disk, the I/O wait fraction), and lies in \<open>[0,100]\<close>. The product is the
  one the code computes, rounded to a double; its integer part can differ by one from
  the integer part of the exact percentage.
\<close>

theorem gauges_truncated_percent:
  assumes "proxmox st \<noteq> None" and "status_get be = Inr s"
    and "valid_host_status s" and "float_range s"
  shows "gauge_values (update_stats be st) = map truncated_percent (gauge_fields s) \<and>
     list_all percentage (gauge_values (update_stats be st))"
proof -
  have v: "valid_fraction (cpu s)" "valid_fraction (wait s)" "valid_usage (memory s)"
    "valid_usage (rootfs s)"
    using assms(3) by (simp_all add: valid_host_status_def)
  note c = truncated_percent_bounds [OF valid_fraction_bounds [OF v(1)]]
  note w = truncated_percent_bounds [OF valid_fraction_bounds [OF v(2)]]
  note m = truncated_percent_bounds [OF usage_percent_valid(2,3) [OF v(3)]]
  note d = truncated_percent_bounds [OF usage_percent_valid(2,3) [OF v(4)]]
  show ?thesis
    by (simp add: update_stats_gauge_values [OF assms(1,2)] gauge_fields_def
        usage_percent_valid(1) [OF v(3)] usage_percent_valid(1) [OF v(4)] c w m d
        setValue_percentage)
qed

theorem gauges_truncated_percent_witness:
  "proxmox ex_connected \<noteq> None \<and> status_get ex_backend_inexact = Inr ex_status_inexact \<and>
   valid_host_status ex_status_inexact \<and> float_range ex_status_inexact \<and>
   (gauge_values (update_stats ex_backend_inexact ex_connected)
      = map truncated_percent (gauge_fields ex_status_inexact) \<and>
    list_all percentage (gauge_values (update_stats ex_backend_inexact ex_connected))) \<and>
   map truncated_percent (gauge_fields ex_status_inexact) = [37, 28, 25, 3] \<and>
   \<lfloor>fraction_of (cpu ex_status_inexact) * 100\<rfloor> = 36 \<and>
   \<lfloor>(31138512896 / 107374182400 :: rat) * 100\<rfloor> = 29"
proof -
  have h1: "proxmox ex_connected \<noteq> None" by code_simp
  have h2: "status_get ex_backend_inexact = Inr ex_status_inexact" by code_simp
  have h3: "valid_host_status ex_status_inexact" by code_simp
  have h4: "float_range ex_status_inexact" by code_simp
  have v: "map truncated_percent (gauge_fields ex_status_inexact) = [37, 28, 25, 3]"
    by code_simp
  have e1: "\<lfloor>fraction_of (cpu ex_status_inexact) * 100\<rfloor> = 36" by code_simp
  have e2: "\<lfloor>(31138512896 / 107374182400 :: rat) * 100\<rfloor> = 29" by code_simp
  show ?thesis
    by (rule conjI [OF h1 conjI [OF h2 conjI [OF h3 conjI [OF h4
          conjI [OF gauges_truncated_percent [OF h1 h2 h3 h4] conjI [OF v conjI [OF e1 e2]]]]]]])
qed

subsection \<open>C2: a poll tick in which a fetch raises\<close>

text \<open>
  The claim as worded fails. \<open>update_stats\<close> paints each part as soon as its fetch has
  returned, inside one \<open>try\<close>: when \<open>node.status.get()\<close> returns and \<open>node.qemu.get()\<close>
  raises, the gauges already show the new host status.
\<close>

theorem poll_failure_repaints_counterexample:
  "proxmox ex_connected \<noteq> None \<and>
   poll_error ex_backend_qemu_fails = Some (ResourceException ''500 Internal Server Error'') \<and>
   pyve_cpu_bar ex_connected = 0 \<and>
   pyve_cpu_bar (update_stats ex_backend_qemu_fails ex_connected) = 18 \<and>
   displayed (update_stats ex_backend_qemu_fails ex_connected) \<noteq> displayed ex_connected"
  by code_simp

text \<open>
  \<^bold>\<open>C2\<close> (amended). For every poll tick of a connected widget in which a fetch raises, the
  tick logs the error once and shows no message box and schedules nothing. What is
  displayed changes only in the parts whose fetch had returned before the failing one:
  when the host status fetch raises, the whole display is as before; when a later fetch
  raises, the host gauges show the new status, the container list is as before, and the
  VM list is as before when the VM fetch is the one that raised and is the new list
  otherwise.
\<close>

theorem poll_failure_keeps_unfetched_parts:
  assumes "proxmox st \<noteq> None" and "poll_error be = Some e"
  shows "logger (update_stats be st) = logger st @ [LogError (poll_error_text e)] \<and>
     dialogs (update_stats be st) = dialogs st \<and>
     timers (update_stats be st) = timers st \<and>
     (case status_get be of
        Inl _ \<Rightarrow> displayed (update_stats be st) = displayed st
      | Inr s \<Rightarrow>
          host_gauges (update_stats be st) = host_gauges (show_status s st) \<and>
          container_list (update_stats be st) = container_list st \<and>
          (case qemu_get be of
             Inl _ \<Rightarrow> vm_list (update_stats be st) = vm_list st
           | Inr vms \<Rightarrow> vm_list (update_stats be st) = fill_list vms (vm_list st)))"
  using assms
  by (auto simp: update_stats_def poll_error_def Let_def log_poll_error_def displayed_def
      host_gauges_def show_status_def split: sum.splits)

theorem poll_failure_keeps_unfetched_parts_witness:
  "proxmox ex_connected \<noteq> None \<and>
   poll_error ex_backend_qemu_fails = Some (ResourceException ''500 Internal Server Error'') \<and>
   logger (update_stats ex_backend_qemu_fails ex_connected)
     = [LogError ''Proxmox API error: 500 Internal Server Error''] \<and>
   dialogs (update_stats ex_backend_qemu_fails ex_connected) = [] \<and>
   vm_list (update_stats ex_backend_qemu_fails ex_connected) = vm_list ex_connected \<and>
   container_list (update_stats ex_backend_qemu_fails ex_connected)
     = container_list ex_connected"
proof -
  have h1: "proxmox ex_connected \<noteq> None" by code_simp
  have h2: "poll_error ex_backend_qemu_fails
              = Some (ResourceException ''500 Internal Server Error'')" by code_simp
  have s: "status_get ex_backend_qemu_fails = Inr ex_status" by code_simp
  have q: "qemu_get ex_backend_qemu_fails = Inl (ResourceException ''500 Internal Server Error'')"
    by code_simp
  have l: "logger ex_connected = []" and d: "dialogs ex_connected = []" by code_simp+
  have t: "poll_error_text (ResourceException ''500 Internal Server Error'')
             = ''Proxmox API error: 500 Internal Server Error''" by code_simp
  show ?thesis
    using poll_failure_keeps_unfetched_parts [OF h1 h2] h1 h2
    by (simp add: s q l d t)
qed

subsection \<open>C3: a dispatch that resolves no identifier\<close>

text \<open>
  The claim as worded fails. \<open>_get_selected_vmid\<close> shows the warning only when no row is
  selected. When the text of the selected row has no match for the pattern it returns
  \<open>None\<close> without a message box, and \<open>_perform_action\<close> returns at once: here the
  selected row is \<open>ID: None | web | running\<close> and the Start button shows nothing.
\<close>

theorem unparsable_row_no_warning_counterexample:
  "map item_text (selectedItems (vm_list ex_selected_no_vmid)) = [''ID: None | web | running''] \<and>
   re_search ''ID: None | web | running'' = None \<and>
   dialogs ex_selected_no_vmid = [] \<and>
   dialogs (start_vm ex_backend ex_selected_no_vmid) = []"
  by code_simp

text \<open>
  \<^bold>\<open>C3\<close> (amended). For every dispatch of an action, on the VM list or the container
  list, that resolves no identifier, no call is sent and nothing is scheduled. When no
  row is selected, one warning is shown; when a row is selected and its text has no match
  for the pattern, no message box is shown.
\<close>

theorem dispatch_unresolved:
  assumes "fst (get_selected_vmid (list_of rt st) (item_type_of rt) st) = None"
  shows "calls (handler rt a be st) = calls st \<and> timers (handler rt a be st) = timers st \<and>
     dialogs (handler rt a be st) =
       (if selectedItems (list_of rt st) = []
        then dialogs st @ [Warning ''Selection'' (''Select a '' @ item_type_of rt @ '' first.'')]
        else dialogs st)"
  using get_selected_vmid_None [OF assms]
  by (simp add: handler_unfold perform_action_None)

theorem dispatch_unresolved_witness:
  "fst (get_selected_vmid (list_of Container ex_connected) (item_type_of Container) ex_connected)
     = None \<and>
   calls (handler Container Stop ex_backend ex_connected) = calls ex_connected \<and>
   timers (handler Container Stop ex_backend ex_connected) = timers ex_connected \<and>
   dialogs (handler Container Stop ex_backend ex_connected)
     = [Warning ''Selection'' ''Select a CT first.'']"
proof -
  have h: "fst (get_selected_vmid (list_of Container ex_connected) (item_type_of Container)
             ex_connected) = None" by code_simp
  have e: "selectedItems (list_of Container ex_connected) = []" by code_simp
  have d: "dialogs ex_connected = []" by code_simp
  have i: "item_type_of Container = ''CT''" by code_simp
  show ?thesis
    using dispatch_unresolved [OF h, of Stop ex_backend] h
    by (simp add: e d i)
qed

subsection \<open>C4: a dispatch with an identifier and a session\<close>

text \<open>
  \<^bold>\<open>C4\<close>. For every dispatched action with a resolved guest id and a session, one call is
  sent. When it returns, exactly one single-shot of \<open>update_stats\<close> is scheduled after
  2000 ms and no message box is shown. When it raises, nothing is scheduled and one
  critical message box is shown whose text ends with the text of the exception; the
  handler returns a state in both cases.
\<close>

theorem dispatch_resolved_connected:
  assumes "proxmox st \<noteq> None"
    and "fst (get_selected_vmid (list_of rt st) (item_type_of rt) st) = Some v"
  shows "calls (handler rt a be st) = calls st @ [StatusPost rt v a] \<and>
     (case status_post be rt v a of
        None \<Rightarrow>
          timers (handler rt a be st) = timers st @ [(2000, UpdateStats)] \<and>
          dialogs (handler rt a be st) = dialogs st
      | Some e \<Rightarrow>
          timers (handler rt a be st) = timers st \<and>
          dialogs (handler rt a be st) = dialogs st @ [Critical ''Error'' (action_error_text e)] \<and>
          suffix (exn_str e) (action_error_text e))"
proof -
  have sfx: "suffix (exn_str e) (action_error_text e)" for e
    by (cases e) (simp_all add: action_error_text_def suffix_def)
  obtain h where "proxmox st = Some h"
    using assms(1) by auto
  then show ?thesis
    using get_selected_vmid_Some [OF assms(2)] sfx
    by (simp add: handler_unfold perform_action_def Let_def split: option.splits)
qed

theorem dispatch_resolved_connected_witness:
  "proxmox ex_selected \<noteq> None \<and>
   fst (get_selected_vmid (list_of VM ex_selected) (item_type_of VM) ex_selected) = Some 101 \<and>
   timers (handler VM Reboot ex_backend ex_selected) = [(2000, UpdateStats)] \<and>
   dialogs (handler VM Reboot ex_backend ex_selected) = [] \<and>
   timers (handler VM Reboot ex_backend_post_fails ex_selected) = [] \<and>
   dialogs (handler VM Reboot ex_backend_post_fails ex_selected)
     = [Critical ''Error'' ''Action failed: 500 VM is locked'']"
proof -
  have h1: "proxmox ex_selected \<noteq> None" by code_simp
  have h2: "fst (get_selected_vmid (list_of VM ex_selected) (item_type_of VM) ex_selected)
              = Some 101" by code_simp
  have p: "status_post ex_backend VM 101 Reboot = None"
    "status_post ex_backend_post_fails VM 101 Reboot = Some (ResourceException ''500 VM is locked'')"
    by code_simp+
  have t: "timers ex_selected = []" and d: "dialogs ex_selected = []" by code_simp+
  have x: "action_error_text (ResourceException ''500 VM is locked'')
             = ''Action failed: 500 VM is locked''" by code_simp
  show ?thesis
    using dispatch_resolved_connected [OF h1 h2, of Reboot ex_backend]
      dispatch_resolved_connected [OF h1 h2, of Reboot ex_backend_post_fails] h1 h2
    by (simp add: p t d x)
qed


subsection \<open>C5: the guest lists of a good tick\<close>

text \<open>
  \<^bold>\<open>C5\<close>. For every list of guests that the host returns, in any order, the list that a
  poll tick shows is built from the returned list alone (nothing of the prior list is
  kept), has exactly one row per guest, the rows being those of a permutation of the
  guests, and is in non-decreasing order of guest id.
\<close>

theorem guest_lists_sorted:
  assumes "proxmox st \<noteq> None" and "status_get be = Inr s"
    and "qemu_get be = Inr vms" and "lxc_get be = Inr cts"
  shows "items (vm_list (update_stats be st)) = map guest_item (sorted_guests vms) \<and>
     items (container_list (update_stats be st)) = map guest_item (sorted_guests cts) \<and>
     length (items (vm_list (update_stats be st))) = length vms \<and>
     length (items (container_list (update_stats be st))) = length cts \<and>
     mset (sorted_guests vms) = mset vms \<and> mset (sorted_guests cts) = mset cts \<and>
     sorted (map vmid_key (sorted_guests vms)) \<and> sorted (map vmid_key (sorted_guests cts))"
proof -
  obtain h where "proxmox st = Some h"
    using assms(1) by auto
  then show ?thesis
    using assms(2-4)
    by (simp add: update_stats_def Let_def items_fill_list sorted_guests_props)
qed

theorem guest_lists_sorted_witness:
  "proxmox ex_selected \<noteq> None \<and> status_get ex_backend = Inr ex_status \<and>
   qemu_get ex_backend = Inr ex_guests \<and> lxc_get ex_backend = Inr [] \<and>
   map item_text (items (vm_list ex_selected))
     = [''ID: 55 | db | stopped'', ''ID: 101 | web | ID: 7 | running''] \<and>
   map item_text (items (vm_list (update_stats ex_backend ex_selected)))
     = [''ID: 55 | db | stopped'', ''ID: 101 | web | ID: 7 | running''] \<and>
   map vmid_key (sorted_guests ex_guests) = [55, 101] \<and>
   items (container_list (update_stats ex_backend ex_selected)) = []"
proof -
  have h1: "proxmox ex_selected \<noteq> None" by code_simp
  have h2: "status_get ex_backend = Inr ex_status" by code_simp
  have h3: "qemu_get ex_backend = Inr ex_guests" by code_simp
  have h4: "lxc_get ex_backend = Inr []" by code_simp
  have v1: "map item_text (items (vm_list ex_selected))
              = [''ID: 55 | db | stopped'', ''ID: 101 | web | ID: 7 | running'']"
    by code_simp
  have v2: "map item_text (map guest_item (sorted_guests ex_guests))
              = [''ID: 55 | db | stopped'', ''ID: 101 | web | ID: 7 | running'']"
    by code_simp
  have v3: "map vmid_key (sorted_guests ex_guests) = [55, 101]" by code_simp
  have v4: "map guest_item (sorted_guests []) = []" by code_simp
  note t = guest_lists_sorted [OF h1 h2 h3 h4]
  have e1: "items (vm_list (update_stats ex_backend ex_selected))
              = map guest_item (sorted_guests ex_guests)"
    using t by (rule conjunct1)
  have e2: "items (container_list (update_stats ex_backend ex_selected))
              = map guest_item (sorted_guests [])"
    using t by (rule conjunct1 [OF conjunct2])
  have r1: "map item_text (items (vm_list (update_stats ex_backend ex_selected)))
              = [''ID: 55 | db | stopped'', ''ID: 101 | web | ID: 7 | running'']"
    unfolding e1 by (rule v2)
  have r2: "items (container_list (update_stats ex_backend ex_selected)) = []"
    unfolding e2 by (rule v4)
  show ?thesis
    by (intro conjI h1 h2 h3 h4 v1 r1 v3 r2)
qed

subsection \<open>C6: the startup retry\<close>

text \<open>
  \<^bold>\<open>C6\<close>. At startup the session is opened at most 3 times. Every attempt is the
  constructor call followed, when the constructor returns, by the version query; an
  attempt succeeds when both return. The function returns \<open>True\<close> right after the first
  attempt that succeeds, with no further attempt, and returns \<open>False\<close> exactly when all 3
  attempts fail. Between two consecutive attempts there is exactly one sleep of 2
  seconds, and there is none after the last attempt.
\<close>

theorem startup_retry:
  "fst (initialize_proxmox_connection cfg sb st) =
     (attempt_ok sb 0 \<or> attempt_ok sb 1 \<or> attempt_ok sb 2) \<and>
   calls (snd (initialize_proxmox_connection cfg sb st)) =
     calls st @
       (if attempt_ok sb 0 then attempt_events sb 0
        else if attempt_ok sb 1 then attempt_events sb 0 @ [Sleep 2] @ attempt_events sb 1
        else attempt_events sb 0 @ [Sleep 2] @ attempt_events sb 1 @ [Sleep 2]
               @ attempt_events sb 2) \<and>
   connects (calls (snd (initialize_proxmox_connection cfg sb st))) \<le> connects (calls st) + 3"
proof -
  have upt3: "[0..<max_retries] = [0, 1, 2]"
    by (simp add: max_retries_def upt_rec)
  note cs = connects_append connects_attempt_events connects_Sleep
  show ?thesis
  proof (cases "attempt_ok sb 0")
    case True
    then show ?thesis
      using attempts_ok [OF True, of cfg "[1, 2]" st]
      by (simp add: initialize_proxmox_connection_def upt3 cs del: attempts.simps(2))
  next
    case n0: False
    obtain st1 where s1: "attempts cfg sb [0, 1, 2] st = attempts cfg sb [1, 2] st1"
      "calls st1 = calls st @ attempt_events sb 0 @ [Sleep 2]"
      using attempts_not_ok [OF n0, of cfg "[1, 2]" st]
      by (auto simp: max_retries_def simp del: attempts.simps(2))
    show ?thesis
    proof (cases "attempt_ok sb 1")
      case True
      then show ?thesis
        using attempts_ok [OF True, of cfg "[2]" st1] n0 s1
        by (simp add: initialize_proxmox_connection_def upt3 cs del: attempts.simps(2))
    next
      case n1: False
      obtain st2 where s2: "attempts cfg sb [1, 2] st1 = attempts cfg sb [2] st2"
        "calls st2 = calls st1 @ attempt_events sb 1 @ [Sleep 2]"
        using attempts_not_ok [OF n1, of cfg "[2]" st1]
        by (auto simp: max_retries_def simp del: attempts.simps(2))
      show ?thesis
      proof (cases "attempt_ok sb 2")
        case True
        then show ?thesis
          using attempts_ok [OF True, of cfg "[]" st2] n0 n1 s1 s2
          by (simp add: initialize_proxmox_connection_def upt3 cs del: attempts.simps(2))
      next
        case n2: False
        obtain st3 where s3: "attempts cfg sb [2] st2 = attempts cfg sb [] st3"
          "calls st3 = calls st2 @ attempt_events sb 2"
          using attempts_not_ok [OF n2, of cfg "[]" st2]
          by (auto simp: max_retries_def simp del: attempts.simps(2))
        show ?thesis
          using n0 n1 n2 s1 s2 s3
          by (simp add: initialize_proxmox_connection_def upt3 cs del: attempts.simps(2))
      qed
    qed
  qed
qed

theorem startup_retry_witness:
  "fst (initialize_proxmox_connection ex_config ex_startup module_globals) \<and>
   calls (snd (initialize_proxmox_connection ex_config ex_startup module_globals))
     = [Connect, Sleep 2, Connect, VersionGet]"
proof -
  have a0: "attempt_ok ex_startup 0 = False" by code_simp
  have a1: "attempt_ok ex_startup 1 = True" by code_simp
  have e: "attempt_events ex_startup 0 = [Connect]"
    "attempt_events ex_startup 1 = [Connect, VersionGet]" by code_simp+
  have c: "calls module_globals = []" by code_simp
  note t = startup_retry [of ex_config ex_startup module_globals]
  have r1: "fst (initialize_proxmox_connection ex_config ex_startup module_globals)"
    using conjunct1 [OF t] by (simp only: a0 a1 simp_thms)
  have r2: "calls (snd (initialize_proxmox_connection ex_config ex_startup module_globals))
              = [Connect, Sleep 2, Connect, VersionGet]"
    using conjunct1 [OF conjunct2 [OF t]]
    by (simp only: a0 a1 e c if_True if_False append.simps)
  show ?thesis
    by (intro conjI r1 r2)
qed

subsection \<open>C7: a poll tick without a session\<close>

text \<open>
  \<^bold>\<open>C7\<close>. For every poll tick that runs while the connection handle is absent, the four
  host labels are set to their error texts, each of the two guest lists is replaced by
  a single uncoloured row with the text \<open>Disconnected\<close> and no selection, and no call is
  sent.
\<close>

theorem disconnected_tick:
  assumes "proxmox st = None"
  shows "pyve_cpu_label (update_stats be st) = Text ''CPU (N/A)'' \<and>
     pyve_ram_label (update_stats be st) = Text ''RAM: Error'' \<and>
     pyve_disk_label (update_stats be st) = Text ''Disk: Error'' \<and>
     pyve_iodelay_label (update_stats be st) = Text ''I/O Delay: Error'' \<and>
     map item_text (items (vm_list (update_stats be st))) = [''Disconnected''] \<and>
     map item_text (items (container_list (update_stats be st))) = [''Disconnected''] \<and>
     items (vm_list (update_stats be st))
       = [\<lparr>item_text = ''Disconnected'', background = None, foreground = None\<rparr>] \<and>
     items (container_list (update_stats be st))
       = [\<lparr>item_text = ''Disconnected'', background = None, foreground = None\<rparr>] \<and>
     selected (vm_list (update_stats be st)) = None \<and>
     selected (container_list (update_stats be st)) = None \<and>
     calls (update_stats be st) = calls st"
  using assms
  by (simp add: update_stats_def set_error_state_def clear_def addItem_def plain_item_def)

theorem disconnected_tick_witness:
  "proxmox ex_disconnected_selected = None \<and>
   map item_text (items (vm_list ex_disconnected_selected))
     = [''ID: 101 | web | ID: 7 | running'', ''ID: 55 | db | stopped''] \<and>
   pyve_cpu_label (update_stats ex_backend ex_disconnected_selected) = Text ''CPU (N/A)'' \<and>
   pyve_ram_label (update_stats ex_backend ex_disconnected_selected) = Text ''RAM: Error'' \<and>
   pyve_disk_label (update_stats ex_backend ex_disconnected_selected) = Text ''Disk: Error'' \<and>
   pyve_iodelay_label (update_stats ex_backend ex_disconnected_selected)
     = Text ''I/O Delay: Error'' \<and>
   map item_text (items (vm_list (update_stats ex_backend ex_disconnected_selected)))
     = [''Disconnected''] \<and>
   map item_text (items (container_list (update_stats ex_backend ex_disconnected_selected)))
     = [''Disconnected''] \<and>
   calls (update_stats ex_backend ex_disconnected_selected) = []"
proof -
  have h: "proxmox ex_disconnected_selected = None" by code_simp
  have v: "map item_text (items (vm_list ex_disconnected_selected))
             = [''ID: 101 | web | ID: 7 | running'', ''ID: 55 | db | stopped'']"
    by code_simp
  have c: "calls ex_disconnected_selected = []" by code_simp
  note t = disconnected_tick [OF h, of ex_backend]
  have r1: "pyve_cpu_label (update_stats ex_backend ex_disconnected_selected)
              = Text ''CPU (N/A)''"
    and r2: "pyve_ram_label (update_stats ex_backend ex_disconnected_selected)
              = Text ''RAM: Error''"
    and r3: "pyve_disk_label (update_stats ex_backend ex_disconnected_selected)
              = Text ''Disk: Error''"
    and r4: "pyve_iodelay_label (update_stats ex_backend ex_disconnected_selected)
              = Text ''I/O Delay: Error''"
    and r5: "map item_text (items (vm_list (update_stats ex_backend ex_disconnected_selected)))
              = [''Disconnected'']"
    and r6: "map item_text
               (items (container_list (update_stats ex_backend ex_disconnected_selected)))
              = [''Disconnected'']"
    and r7: "calls (update_stats ex_backend ex_disconnected_selected)
              = calls ex_disconnected_selected"
    using t by blast+
  show ?thesis
    by (intro conjI h v r1 r2 r3 r4 r5 r6 r7 [unfolded c])
qed

subsection \<open>C8: rendering a row and reading the identifier back\<close>

text \<open>
  \<^bold>\<open>C8\<close>. For every guest whose id is a non-negative integer, and every name and status,
  the leftmost match of the pattern in the row text that the poll tick renders is the
  decimal text of the id, it reads back as the id, and so the dispatcher resolves a
  selected row showing that guest to exactly that id, without a message box.
\<close>

theorem render_parse_roundtrip:
  assumes "0 \<le> v" and "vmid g = Some v"
    and "i < length (items lw)" and "items lw ! i = guest_item g"
  shows "re_search (item_text (guest_item g)) = Some (str_int v) \<and>
     int_of_digits (str_int v) = v \<and>
     get_selected_vmid (select_row i lw) ty st = (Some v, st)"
  using assms re_search_guest_item [OF assms(1,2)] int_of_digits_str_int [OF assms(1)]
  by (simp add: get_selected_vmid_def selectedItems_select_row)

theorem render_parse_roundtrip_witness:
  "(0::int) \<le> 101 \<and> vmid ex_guest = Some 101 \<and>
   item_text (guest_item ex_guest) = ''ID: 101 | web | ID: 7 | running'' \<and>
   re_search (item_text (guest_item ex_guest)) = Some ''101'' \<and>
   get_selected_vmid (select_row 1 (vm_list (update_stats ex_backend ex_connected))) ''VM''
       ex_connected
     = (Some 101, ex_connected)"
proof -
  have h1: "(0::int) \<le> 101" by simp
  have h2: "vmid ex_guest = Some 101" by code_simp
  have h3: "1 < length (items (vm_list (update_stats ex_backend ex_connected)))" by code_simp
  have h4: "items (vm_list (update_stats ex_backend ex_connected)) ! 1 = guest_item ex_guest"
    by code_simp
  have v1: "item_text (guest_item ex_guest) = ''ID: 101 | web | ID: 7 | running''" by code_simp
  have v2: "str_int 101 = ''101''" by code_simp
  note t = render_parse_roundtrip [OF h1 h2 h3 h4, of "''VM''" ex_connected]
  have r1: "re_search (item_text (guest_item ex_guest)) = Some ''101''"
    using conjunct1 [OF t] unfolding v2 .
  have r2: "get_selected_vmid (select_row 1 (vm_list (update_stats ex_backend ex_connected)))
              ''VM'' ex_connected = (Some 101, ex_connected)"
    using conjunct2 [OF conjunct2 [OF t]] .
  show ?thesis
    by (intro conjI h1 h2 v1 r1 r2)
qed

subsection \<open>C9: the connection handle is written at startup only\<close>

text \<open>
  \<^bold>\<open>C9\<close>. No poll tick and no action dispatch changes the connection handle, whatever
  the host answers (a fetch or an action call that raises included), and neither opens a
  session: the number of constructor calls sent is the same before and after.
\<close>

theorem connection_handle_frame:
  "proxmox (update_stats be st) = proxmox st \<and>
   proxmox (handler rt a be st) = proxmox st \<and>
   connects (calls (update_stats be st)) = connects (calls st) \<and>
   connects (calls (handler rt a be st)) = connects (calls st)"
proof -
  obtain v st1 where g: "get_selected_vmid (list_of rt st) (item_type_of rt) st = (v, st1)"
    by (cases "get_selected_vmid (list_of rt st) (item_type_of rt) st")
  have "proxmox st1 = proxmox st" "calls st1 = calls st"
    using proxmox_get_selected [of "list_of rt st" "item_type_of rt" st]
      calls_get_selected [of "list_of rt st" "item_type_of rt" st] g by simp_all
  then show ?thesis
    using g by (simp add: handler_unfold proxmox_update_stats connects_update_stats
        proxmox_perform_action connects_perform_action)
qed

subsection \<open>C10: a dispatch without a session\<close>

text \<open>
  \<^bold>\<open>C10\<close>. While the connection handle is absent, every action handler whose selected
  row resolves to a guest id returns the state it was given: no call is sent and no
  message box is shown, for every id, action and list.
\<close>

theorem disconnected_dispatch:
  assumes "proxmox st = None"
    and "fst (get_selected_vmid (list_of rt st) (item_type_of rt) st) = Some v"
  shows "handler rt a be st = st \<and> perform_action be (Some v) a rt st = st"
  using get_selected_vmid_Some [OF assms(2)] assms(1)
  by (simp add: handler_unfold perform_action_def)

theorem disconnected_dispatch_witness:
  "proxmox ex_disconnected_selected = None \<and>
   fst (get_selected_vmid (list_of VM ex_disconnected_selected) (item_type_of VM)
          ex_disconnected_selected) = Some 101 \<and>
   handler VM Shutdown ex_backend_post_fails ex_disconnected_selected = ex_disconnected_selected \<and>
   perform_action ex_backend_post_fails (Some 101) Shutdown VM ex_disconnected_selected
     = ex_disconnected_selected"
proof -
  have h1: "proxmox ex_disconnected_selected = None" by code_simp
  have h2: "fst (get_selected_vmid (list_of VM ex_disconnected_selected) (item_type_of VM)
              ex_disconnected_selected) = Some 101" by code_simp
  show ?thesis
    by (rule conjI [OF h1 conjI [OF h2
          disconnected_dispatch [OF h1 h2, of Shutdown ex_backend_post_fails]]])
qed


end
